theory Spec2Isabelle
  imports Complex_Main
begin

section \<open>Data model\<close>

text \<open>
  The interfaces \<^verbatim>\<open>Medicine\<close> and \<^verbatim>\<open>MedicineLog\<close> of \<^verbatim>\<open>App.tsx\<close>. The fields
  \<^verbatim>\<open>id\<close>, \<^verbatim>\<open>times\<close> and \<^verbatim>\<open>notes\<close> carry a suffix because Isabelle already uses these names;
  a field name shared by several interfaces carries a suffix in all but one of them.
\<close>

record Medicine =
  id_m :: string
  name :: string
  dosage :: string
  frequency :: string
  times_m :: "string list"
  startDate :: string
  endDate :: "string option"
  notes_m :: "string option"
  color :: string

record MedicineLog =
  medicineId :: string
  medicineName :: string
  time :: string
  takenAt :: string
  date :: string

section \<open>The platform: numbers, strings and dates\<close>

text \<open>
  A JavaScript number that the scheduling code computes is an integer or \<^verbatim>\<open>NaN\<close>; it is
  modelled as \<^typ>\<open>int option\<close> with \<^term>\<open>None\<close> for \<^verbatim>\<open>NaN\<close>. Every comparison with
  \<^verbatim>\<open>NaN\<close> is false.

  \<^verbatim>\<open>Number(s)\<close> is modelled on the strings a time input produces: a string of decimal
  digits is read in base ten and the empty string is \<^verbatim>\<open>0\<close>. Any other string is read as
  \<^verbatim>\<open>NaN\<close>; signs, fractions, exponents, other radices and surrounding white space are
  outside the model.
\<close>

definition digits10 :: string where
  "digits10 = ''0123456789''"

definition isDigit :: "char \<Rightarrow> bool" where
  "isDigit c = (c \<in> set digits10)"

definition digitValue :: "char \<Rightarrow> int" where
  "digitValue c = int (of_char c) - 48"

definition Number :: "string \<Rightarrow> int option" where
  "Number s =
     (if list_all isDigit s then Some (foldl (\<lambda>a c. 10 * a + digitValue c) 0 s) else None)"

text \<open>\<^verbatim>\<open>s.split(c)\<close> for a one-character separator: never empty, \<^verbatim>\<open>"".split(":")\<close> is \<^verbatim>\<open>[""]\<close>.\<close>

fun split_str :: "char \<Rightarrow> string \<Rightarrow> string list" where
  "split_str c [] = [[]]"
| "split_str c (x # xs) =
     (if x = c then [] # split_str c xs
      else (case split_str c xs of [] \<Rightarrow> [[x]] | y # ys \<Rightarrow> (x # y) # ys))"

text \<open>
  \<^verbatim>\<open>const [hours, minutes] = time.split(':').map(Number)\<close>: the first two segments; a
  missing second segment is \<^verbatim>\<open>undefined\<close>, which turns every sum it enters into \<^verbatim>\<open>NaN\<close>.
\<close>

definition hoursMinutes :: "string \<Rightarrow> int option \<times> int option" where
  "hoursMinutes t =
     (case map Number (split_str CHR '':'' t) of
        [] \<Rightarrow> (None, None)
      | [hours] \<Rightarrow> (hours, None)
      | hours # minutes # _ \<Rightarrow> (hours, minutes))"

text \<open>\<^verbatim>\<open>hours * 60 + minutes\<close>\<close>

definition medicineMinutes :: "string \<Rightarrow> int option" where
  "medicineMinutes t =
     (case hoursMinutes t of
        (Some hours, Some minutes) \<Rightarrow> Some (hours * 60 + minutes)
      | _ \<Rightarrow> None)"

text \<open>
  A \<^verbatim>\<open>Date\<close> is its time value, the milliseconds since the epoch in UTC, together with the
  offset of local time that is in force (\<^verbatim>\<open>LocalTZA\<close>). The offset is one constant for the
  whole day: daylight-saving changes are not modelled. The day and time functions are
  those of ECMAScript; \<^verbatim>\<open>Day\<close> rounds down and the remainders are non-negative, as
  \<^term>\<open>(div)\<close> and \<^term>\<open>(mod)\<close> on \<^typ>\<open>int\<close> are. Time values are exact integers: the range
  check \<^verbatim>\<open>TimeClip\<close> is not modelled.
\<close>

record JSDate =
  timeValue :: int
  localTZA :: int

definition msPerDay :: int where "msPerDay = 86400000"
definition msPerHour :: int where "msPerHour = 3600000"
definition msPerMinute :: int where "msPerMinute = 60000"
definition msPerSecond :: int where "msPerSecond = 1000"

definition Day :: "int \<Rightarrow> int" where
  "Day t = t div msPerDay"

definition TimeWithinDay :: "int \<Rightarrow> int" where
  "TimeWithinDay t = t mod msPerDay"

definition HourFromTime :: "int \<Rightarrow> int" where
  "HourFromTime t = (t div msPerHour) mod 24"

definition MinFromTime :: "int \<Rightarrow> int" where
  "MinFromTime t = (t div msPerMinute) mod 60"

definition SecFromTime :: "int \<Rightarrow> int" where
  "SecFromTime t = (t div msPerSecond) mod 60"

definition msFromTime :: "int \<Rightarrow> int" where
  "msFromTime t = t mod msPerSecond"

definition LocalTime :: "JSDate \<Rightarrow> int" where
  "LocalTime d = timeValue d + localTZA d"

definition getTime :: "JSDate \<Rightarrow> int" where
  "getTime d = timeValue d"

definition getHours :: "JSDate \<Rightarrow> int" where
  "getHours d = HourFromTime (LocalTime d)"

definition getMinutes :: "JSDate \<Rightarrow> int" where
  "getMinutes d = MinFromTime (LocalTime d)"

definition MakeTime :: "int \<Rightarrow> int \<Rightarrow> int \<Rightarrow> int \<Rightarrow> int" where
  "MakeTime hour minute sec ms = hour * msPerHour + minute * msPerMinute + sec * msPerSecond + ms"

definition MakeDate :: "int \<Rightarrow> int \<Rightarrow> int" where
  "MakeDate day tm = day * msPerDay + tm"

text \<open>
  \<^verbatim>\<open>d.setHours(hours, minutes, 0, 0)\<close> followed by \<^verbatim>\<open>d.getTime()\<close>: the local day of
  \<^verbatim>\<open>d\<close> with the given time of day, back in UTC; \<^verbatim>\<open>NaN\<close> when an argument is.
\<close>

definition setHours :: "JSDate \<Rightarrow> int option \<Rightarrow> int option \<Rightarrow> int option" where
  "setHours d hours minutes =
     (case (hours, minutes) of
        (Some h, Some m) \<Rightarrow> Some (MakeDate (Day (LocalTime d)) (MakeTime h m 0 0) - localTZA d)
      | _ \<Rightarrow> None)"

text \<open>\<^verbatim>\<open>now.getHours() * 60 + now.getMinutes()\<close>\<close>

definition currentMinutes :: "JSDate \<Rightarrow> int" where
  "currentMinutes now = getHours now * 60 + getMinutes now"

section \<open>The medicine card\<close>

text \<open>
  \<^verbatim>\<open>MedicineCard\<close> keeps the slot times taken from the card in its own state
  \<^verbatim>\<open>takenTimes\<close>; the functions below take it as an argument. All calls of
  \<^verbatim>\<open>new Date()\<close> during one rendering are the one instant \<open>now\<close>.
  \<^verbatim>\<open>xs.includes(x)\<close> is \<^term>\<open>x \<in> set xs\<close>.
\<close>

text \<open>The loop of \<^verbatim>\<open>getNextDose\<close>: the first time of the list, in list order, after now.\<close>

fun nextDoseLoop :: "int \<Rightarrow> string list \<Rightarrow> string option" where
  "nextDoseLoop cur [] = None"
| "nextDoseLoop cur (t # ts) =
     (case medicineMinutes t of
        Some mm \<Rightarrow> (if mm > cur then Some t else nextDoseLoop cur ts)
      | None \<Rightarrow> nextDoseLoop cur ts)"

text \<open>
  \<^verbatim>\<open>getNextDose\<close>; the results \<^verbatim>\<open>null\<close> (as needed) and \<^verbatim>\<open>undefined\<close> (\<^verbatim>\<open>times[0]\<close> of an
  empty array), which both show no badge, are \<^term>\<open>None\<close>.
\<close>

definition getNextDose :: "Medicine \<Rightarrow> JSDate \<Rightarrow> string option" where
  "getNextDose medicine now =
     (if frequency medicine = ''as-needed'' then None
      else (case nextDoseLoop (currentMinutes now) (times_m medicine) of
              Some t \<Rightarrow> Some t
            | None \<Rightarrow> (case times_m medicine of [] \<Rightarrow> None | t # _ \<Rightarrow> Some t)))"

text \<open>\<^verbatim>\<open>medicineTime.getTime()\<close> after \<^verbatim>\<open>medicineTime.setHours(hours, minutes, 0, 0)\<close> on today.\<close>

definition medicineTime :: "JSDate \<Rightarrow> string \<Rightarrow> int option" where
  "medicineTime now t = (case hoursMinutes t of (hours, minutes) \<Rightarrow> setHours now hours minutes)"

definition isDueNow :: "JSDate \<Rightarrow> string \<Rightarrow> bool" where
  "isDueNow now t =
     (case medicineTime now t of
        None \<Rightarrow> False
      | Some mt \<Rightarrow>
          (let diffMinutes = \<bar>real_of_int (getTime now - mt)\<bar> / (1000 * 60)
           in diffMinutes \<le> 15))"

definition isOverdue :: "string list \<Rightarrow> JSDate \<Rightarrow> string \<Rightarrow> bool" where
  "isOverdue takenTimes now t =
     (case medicineTime now t of
        None \<Rightarrow> False
      | Some mt \<Rightarrow> getTime now > mt \<and> t \<notin> set takenTimes)"

text \<open>
  One row of Today's Schedule: the three flags the card computes for a time, and from
  them what the row shows: its border, its icon, the two badges and the Take button.
\<close>

record Row =
  isTaken :: bool
  isDue :: bool
  overdue :: bool

datatype Border = BorderPrimary | BorderDestructive | BorderPlain

datatype Icon = CheckCircle | AlertCircle | Clock

definition scheduleRow :: "string list \<Rightarrow> JSDate \<Rightarrow> string \<Rightarrow> Row" where
  "scheduleRow takenTimes now t =
     \<lparr> isTaken = (t \<in> set takenTimes),
       isDue = isDueNow now t,
       overdue = isOverdue takenTimes now t \<rparr>"

definition rowBorder :: "Row \<Rightarrow> Border" where
  "rowBorder r = (if isDue r then BorderPrimary else if overdue r then BorderDestructive else BorderPlain)"

definition rowIcon :: "Row \<Rightarrow> Icon" where
  "rowIcon r = (if isTaken r then CheckCircle else if overdue r then AlertCircle else Clock)"

definition dueNowBadge :: "Row \<Rightarrow> bool" where
  "dueNowBadge r = (isDue r \<and> \<not> isTaken r)"

definition overdueBadge :: "Row \<Rightarrow> bool" where
  "overdueBadge r = (overdue r \<and> \<not> isTaken r)"

definition takeButton :: "Row \<Rightarrow> bool" where
  "takeButton r = (\<not> isTaken r)"

text \<open>The rows of a card: none for an as-needed medicine or an empty list of times.\<close>

definition scheduleRows :: "Medicine \<Rightarrow> string list \<Rightarrow> JSDate \<Rightarrow> (string \<times> Row) list" where
  "scheduleRows medicine takenTimes now =
     (if frequency medicine \<noteq> ''as-needed'' \<and> length (times_m medicine) > 0
      then map (\<lambda>t. (t, scheduleRow takenTimes now t)) (times_m medicine)
      else [])"

section \<open>Rendering a date\<close>

text \<open>The decimal digits of \<open>n\<close> in exactly \<open>k\<close> places, as \<^verbatim>\<open>padStart(k, "0")\<close> gives them.\<close>

fun padDigits :: "nat \<Rightarrow> int \<Rightarrow> string" where
  "padDigits 0 n = []"
| "padDigits (Suc k) n = padDigits k (n div 10) @ [digits10 ! nat (n mod 10)]"

text \<open>
  The calendar date of a day number (days since 1 January 1970) in the proleptic
  Gregorian calendar, as ECMAScript's \<^verbatim>\<open>YearFromTime\<close>, \<^verbatim>\<open>MonthFromTime\<close> (here 1 to 12)
  and \<^verbatim>\<open>DateFromTime\<close> give it, computed over 400-year eras that start on 1 March.
\<close>

definition civilFromDays :: "int \<Rightarrow> int \<times> int \<times> int" where
  "civilFromDays days =
     (let z = days + 719468;
          era = z div 146097;
          doe = z mod 146097;
          yoe = (doe - doe div 1460 + doe div 36524 - doe div 146096) div 365;
          doy = doe - (365 * yoe + yoe div 4 - yoe div 100);
          mp = (5 * doy + 2) div 153;
          d = doy - (153 * mp + 2) div 5 + 1;
          m = (if mp < 10 then mp + 3 else mp - 9);
          y = yoe + era * 400 + (if m \<le> 2 then 1 else 0)
      in (y, m, d))"

definition yearString :: "int \<Rightarrow> string" where
  "yearString y =
     (if 0 \<le> y \<and> y \<le> 9999 then padDigits 4 y
      else (if y < 0 then ''-'' else ''+'') @ padDigits 6 \<bar>y\<bar>)"

text \<open>The part \<^verbatim>\<open>YYYY-MM-DD\<close> of \<^verbatim>\<open>toISOString\<close>, in UTC.\<close>

definition isoDate :: "JSDate \<Rightarrow> string" where
  "isoDate d =
     (case civilFromDays (Day (timeValue d)) of
        (y, m, dd) \<Rightarrow> yearString y @ ''-'' @ padDigits 2 m @ ''-'' @ padDigits 2 dd)"

definition toISOString :: "JSDate \<Rightarrow> string" where
  "toISOString d =
     isoDate d @ ''T'' @ padDigits 2 (HourFromTime (timeValue d)) @ '':''
       @ padDigits 2 (MinFromTime (timeValue d)) @ '':''
       @ padDigits 2 (SecFromTime (timeValue d)) @ ''.''
       @ padDigits 3 (msFromTime (timeValue d)) @ ''Z''"

text \<open>
  \<^verbatim>\<open>toTimeString\<close>, in local time: \<^verbatim>\<open>HH:MM:SS GMT+hhmm\<close>. The name of the time zone in
  parentheses that an implementation may append is left out.
\<close>

definition toTimeString :: "JSDate \<Rightarrow> string" where
  "toTimeString d =
     padDigits 2 (getHours d) @ '':'' @ padDigits 2 (getMinutes d) @ '':''
       @ padDigits 2 (SecFromTime (LocalTime d)) @ '' GMT''
       @ (if localTZA d < 0 then ''-'' else ''+'')
       @ padDigits 2 (\<bar>localTZA d\<bar> div msPerHour)
       @ padDigits 2 ((\<bar>localTZA d\<bar> div msPerMinute) mod 60)"

text \<open>\<^verbatim>\<open>s.split(c)[0]\<close>\<close>

definition firstSegment :: "char \<Rightarrow> string \<Rightarrow> string" where
  "firstSegment c s = (case split_str c s of [] \<Rightarrow> [] | x # _ \<Rightarrow> x)"

section \<open>The application\<close>

text \<open>The state of \<^verbatim>\<open>App\<close> that the scheduling logic reads and writes.\<close>

record App =
  medicines :: "Medicine list"
  medicineLog :: "MedicineLog list"

definition handleAddMedicine :: "Medicine \<Rightarrow> App \<Rightarrow> App" where
  "handleAddMedicine medicine app = app\<lparr> medicines := medicines app @ [medicine] \<rparr>"

definition handleDeleteMedicine :: "string \<Rightarrow> App \<Rightarrow> App" where
  "handleDeleteMedicine i app =
     app\<lparr> medicines := filter (\<lambda>med. id_m med \<noteq> i) (medicines app) \<rparr>"

definition handleTakeMedicine :: "string \<Rightarrow> string \<Rightarrow> JSDate \<Rightarrow> App \<Rightarrow> App" where
  "handleTakeMedicine mid t now app =
     (case find (\<lambda>med. id_m med = mid) (medicines app) of
        Some medicine \<Rightarrow>
          (let logEntry =
                 \<lparr> medicineId = mid,
                   medicineName = name medicine,
                   time = t,
                   takenAt = take 5 (toTimeString now),
                   date = firstSegment CHR ''T'' (toISOString now) \<rparr>
           in app\<lparr> medicineLog := medicineLog app @ [logEntry] \<rparr>)
      | None \<Rightarrow> app)"

definition getTodaysLog :: "App \<Rightarrow> JSDate \<Rightarrow> MedicineLog list" where
  "getTodaysLog app now =
     (let today = firstSegment CHR ''T'' (toISOString now)
      in filter (\<lambda>log. date log = today) (medicineLog app))"

text \<open>
  The entries \<^verbatim>\<open>getUpcomingMedicines\<close> collects. The two nested loops push onto the
  array \<^verbatim>\<open>upcoming\<close>, which is the accumulator here.
\<close>

record Upcoming =
  medicine_u :: Medicine
  time_u :: string
  minutesUntil :: int

fun upcomingTimes :: "Medicine \<Rightarrow> int \<Rightarrow> string list \<Rightarrow> Upcoming list \<Rightarrow> Upcoming list" where
  "upcomingTimes medicine cur [] upcoming = upcoming"
| "upcomingTimes medicine cur (t # ts) upcoming =
     upcomingTimes medicine cur ts
       (case medicineMinutes t of
          Some mm \<Rightarrow>
            (if mm > cur
             then upcoming @ [\<lparr> medicine_u = medicine, time_u = t, minutesUntil = mm - cur \<rparr>]
             else upcoming)
        | None \<Rightarrow> upcoming)"

fun upcomingLoop :: "int \<Rightarrow> Medicine list \<Rightarrow> Upcoming list \<Rightarrow> Upcoming list" where
  "upcomingLoop cur [] upcoming = upcoming"
| "upcomingLoop cur (medicine # rest) upcoming =
     upcomingLoop cur rest
       (if frequency medicine = ''as-needed'' then upcoming
        else upcomingTimes medicine cur (times_m medicine) upcoming)"

text \<open>
  \<^verbatim>\<open>Array.prototype.sort\<close> with the comparator \<^verbatim>\<open>a.minutesUntil - b.minutesUntil\<close> is a
  stable sort by that key (stable since ECMAScript 2019): \<^term>\<open>sort_key\<close>, an insertion
  sort. \<^verbatim>\<open>slice(0, 3)\<close> is \<^term>\<open>take 3\<close>.
\<close>

definition getUpcomingMedicines :: "Medicine list \<Rightarrow> JSDate \<Rightarrow> Upcoming list" where
  "getUpcomingMedicines meds now =
     take 3 (sort_key minutesUntil (upcomingLoop (currentMinutes now) meds []))"

section \<open>The notification alert\<close>

record DueNotification =
  medicine_n :: Medicine
  time_n :: string
  id_n :: string

text \<open>
  The state of \<^verbatim>\<open>NotificationAlert\<close>. The last field counts the calls of
  \<^verbatim>\<open>playAlarmSound\<close>, the one effect of a tick outside this state.
\<close>

record NotificationState =
  dueNotifications :: "DueNotification list"
  dismissedNotifications :: "string list"
  soundEnabled :: bool
  hasPlayedSound :: "string list"
  alarmSoundCalls :: nat

text \<open>The template \<^verbatim>\<open>`${medicine.id}-${time}`\<close>\<close>

definition notificationId :: "Medicine \<Rightarrow> string \<Rightarrow> string" where
  "notificationId medicine t = id_m medicine @ ''-'' @ t"

text \<open>
  The two nested \<^verbatim>\<open>forEach\<close> of \<^verbatim>\<open>checkForDueMedicines\<close>, pushing onto
  \<^verbatim>\<open>newDueNotifications\<close>.
\<close>

fun dueTimes :: "Medicine \<Rightarrow> int \<Rightarrow> string list \<Rightarrow> string list \<Rightarrow> DueNotification list
    \<Rightarrow> DueNotification list" where
  "dueTimes medicine cur dismissed [] acc = acc"
| "dueTimes medicine cur dismissed (t # ts) acc =
     dueTimes medicine cur dismissed ts
       (case medicineMinutes t of
          Some mm \<Rightarrow>
            (let timeDiff = \<bar>cur - mm\<bar>
             in if timeDiff \<le> 5
                then (if notificationId medicine t \<notin> set dismissed
                      then acc @ [\<lparr> medicine_n = medicine, time_n = t,
                                    id_n = notificationId medicine t \<rparr>]
                      else acc)
                else acc)
        | None \<Rightarrow> acc)"

fun dueLoop :: "int \<Rightarrow> string list \<Rightarrow> Medicine list \<Rightarrow> DueNotification list
    \<Rightarrow> DueNotification list" where
  "dueLoop cur dismissed [] acc = acc"
| "dueLoop cur dismissed (medicine # rest) acc =
     dueLoop cur dismissed rest
       (if frequency medicine = ''as-needed'' then acc
        else dueTimes medicine cur dismissed (times_m medicine) acc)"

definition newDueNotifications :: "Medicine list \<Rightarrow> JSDate \<Rightarrow> string list \<Rightarrow> DueNotification list" where
  "newDueNotifications meds now dismissed = dueLoop (currentMinutes now) dismissed meds []"

text \<open>One tick: \<^verbatim>\<open>checkForDueMedicines\<close> on the state the effect closed over.\<close>

definition checkForDueMedicines :: "Medicine list \<Rightarrow> JSDate \<Rightarrow> NotificationState \<Rightarrow> NotificationState" where
  "checkForDueMedicines meds now s =
     (let new = newDueNotifications meds now (dismissedNotifications s);
          s1 = s\<lparr> dueNotifications := new \<rparr>
      in if soundEnabled s \<and> length new > 0
         then (let newNotificationIds = map id_n new;
                   hasNewNotifications =
                     list_ex (\<lambda>i. i \<notin> set (hasPlayedSound s)) newNotificationIds
               in if hasNewNotifications
                  then s1\<lparr> alarmSoundCalls := alarmSoundCalls s + 1,
                          hasPlayedSound := hasPlayedSound s @ newNotificationIds \<rparr>
                  else s1)
         else s1)"

text \<open>The handlers of the notification's buttons, as far as they change this state.\<close>

definition dismissNotification :: "DueNotification \<Rightarrow> NotificationState \<Rightarrow> NotificationState" where
  "dismissNotification n s = s\<lparr> dismissedNotifications := dismissedNotifications s @ [id_n n] \<rparr>"

definition toggleSound :: "NotificationState \<Rightarrow> NotificationState" where
  "toggleSound s = s\<lparr> soundEnabled := \<not> soundEnabled s \<rparr>"

definition handlePlayAlarmSound :: "NotificationState \<Rightarrow> NotificationState" where
  "handlePlayAlarmSound s =
     (if soundEnabled s then s\<lparr> alarmSoundCalls := alarmSoundCalls s + 1 \<rparr> else s)"

definition initialNotificationState :: NotificationState where
  "initialNotificationState =
     \<lparr> dueNotifications = [], dismissedNotifications = [], soundEnabled = True,
       hasPlayedSound = [], alarmSoundCalls = 0 \<rparr>"

section \<open>The components together\<close>

text \<open>
  The application, the \<^verbatim>\<open>takenTimes\<close> of each mounted card (cards are keyed by the id of
  their medicine; the field \<open>takenTimesOf\<close>) and the notification alert. A take from a card is the card's
  \<^verbatim>\<open>handleTakeMedicine\<close>, a take from a notification is the alert's; both call the
  application's \<^verbatim>\<open>handleTakeMedicine\<close> through \<^verbatim>\<open>onTakeMedicine\<close>.
\<close>

record System =
  application :: App
  takenTimesOf :: "string \<Rightarrow> string list"
  alert :: NotificationState

definition cardTake :: "Medicine \<Rightarrow> string \<Rightarrow> JSDate \<Rightarrow> System \<Rightarrow> System" where
  "cardTake medicine t now sys =
     sys\<lparr> takenTimesOf := (takenTimesOf sys)(id_m medicine := takenTimesOf sys (id_m medicine) @ [t]),
          application := handleTakeMedicine (id_m medicine) t now (application sys) \<rparr>"

definition notificationTake :: "DueNotification \<Rightarrow> JSDate \<Rightarrow> System \<Rightarrow> System" where
  "notificationTake n now sys =
     sys\<lparr> application := handleTakeMedicine (id_m (medicine_n n)) (time_n n) now (application sys),
          alert := dismissNotification n (alert sys) \<rparr>"

definition notificationDismiss :: "DueNotification \<Rightarrow> System \<Rightarrow> System" where
  "notificationDismiss n sys = sys\<lparr> alert := dismissNotification n (alert sys) \<rparr>"

definition tick :: "JSDate \<Rightarrow> System \<Rightarrow> System" where
  "tick now sys = sys\<lparr> alert := checkForDueMedicines (medicines (application sys)) now (alert sys) \<rparr>"

text \<open>
  While the Add Medicine form is shown, \<^verbatim>\<open>App\<close> returns a tree without the alert and
  without the cards (its branch \<^verbatim>\<open>if (showForm)\<close>), so both are unmounted. When the form
  closes they are mounted anew and every \<^verbatim>\<open>useState\<close> of theirs starts from its initial
  value; the newly mounted alert then checks at once, which is the next tick. The calls of
  \<^verbatim>\<open>playAlarmSound\<close> made before are no state of the component and stay counted.
\<close>

definition remountAlert :: "NotificationState \<Rightarrow> NotificationState" where
  "remountAlert s = initialNotificationState\<lparr> alarmSoundCalls := alarmSoundCalls s \<rparr>"

definition formShownAndClosed :: "System \<Rightarrow> System" where
  "formShownAndClosed sys = sys\<lparr> takenTimesOf := (\<lambda>_. []), alert := remountAlert (alert sys) \<rparr>"

text \<open>What the card of a medicine shows for one of its times.\<close>

definition cardRow :: "System \<Rightarrow> Medicine \<Rightarrow> JSDate \<Rightarrow> string \<Rightarrow> Row" where
  "cardRow sys medicine now t = scheduleRow (takenTimesOf sys (id_m medicine)) now t"

text \<open>
  A session of the notification alert: ticks (each with the medicines and the clock it
  sees) interleaved with the user's actions on the alert and with the form being shown
  and closed again. Taking from a notification changes this state exactly as dismissing
  does.
\<close>

datatype Event =
    Tick "Medicine list" JSDate
  | Dismiss DueNotification
  | TakeFromNotification DueNotification
  | ToggleSound
  | ReplaySound
  | FormShownAndClosed

fun step :: "Event \<Rightarrow> NotificationState \<Rightarrow> NotificationState" where
  "step (Tick meds now) s = checkForDueMedicines meds now s"
| "step (Dismiss n) s = dismissNotification n s"
| "step (TakeFromNotification n) s = dismissNotification n s"
| "step ToggleSound s = toggleSound s"
| "step ReplaySound s = handlePlayAlarmSound s"
| "step FormShownAndClosed s = remountAlert s"

fun run :: "Event list \<Rightarrow> NotificationState \<Rightarrow> NotificationState" where
  "run [] s = s"
| "run (e # es) s = run es (step e s)"

section \<open>The medicine form\<close>

text \<open>
  \<^verbatim>\<open>handleSubmit\<close> of \<^verbatim>\<open>MedicineForm\<close>: the form's fields, the times as entered and the
  colour make a medicine, or nothing after one of the two error toasts. The new id,
  \<^verbatim>\<open>Date.now().toString()\<close>, is an argument.
\<close>

record FormData =
  name_f :: string
  dosage_f :: string
  frequency_f :: string
  startDate_f :: string
  endDate_f :: string
  notes_f :: string

definition handleSubmit :: "FormData \<Rightarrow> string list \<Rightarrow> string \<Rightarrow> string \<Rightarrow> Medicine option" where
  "handleSubmit formData tms selectedColor newId =
     (if name_f formData = [] \<or> dosage_f formData = [] \<or> frequency_f formData = [] then None
      else if frequency_f formData \<noteq> ''as-needed'' \<and> list_ex (\<lambda>t. t = []) tms then None
      else Some
        \<lparr> id_m = newId,
          name = name_f formData,
          dosage = dosage_f formData,
          frequency = frequency_f formData,
          times_m = (if frequency_f formData = ''as-needed'' then [] else tms),
          startDate = startDate_f formData,
          endDate = (if endDate_f formData = [] then None else Some (endDate_f formData)),
          notes_m = (if notes_f formData = [] then None else Some (notes_f formData)),
          color = selectedColor \<rparr>)"

section \<open>The dose projector in the words of the specification\<close>

text \<open>
  One entry for every pair of a medicine that is not as needed and one of its slot times
  whose minute of the day is after now's, medicines in insertion order and the times of
  a medicine in list order.
\<close>

definition upcomingPairs :: "Medicine list \<Rightarrow> int \<Rightarrow> Upcoming list" where
  "upcomingPairs meds cur =
     concat (map (\<lambda>medicine.
       if frequency medicine = ''as-needed'' then []
       else concat (map (\<lambda>t.
              case medicineMinutes t of
                Some mm \<Rightarrow>
                  (if mm > cur
                   then [\<lparr> medicine_u = medicine, time_u = t, minutesUntil = mm - cur \<rparr>]
                   else [])
              | None \<Rightarrow> []) (times_m medicine))) meds)"

text \<open>The specification's \<^verbatim>\<open>upcomingDoses\<close>: all pairs, sorted stably, not truncated.\<close>

definition upcomingDoses :: "Medicine list \<Rightarrow> JSDate \<Rightarrow> Upcoming list" where
  "upcomingDoses meds now = sort_key minutesUntil (upcomingPairs meds (currentMinutes now))"

section \<open>Example inputs\<close>

text \<open>
  The clock of 3 November 2025 at the local time \<open>h:m:00.000\<close>, in a time zone five and
  a half hours ahead of UTC.
\<close>

definition localClock :: "int \<Rightarrow> int \<Rightarrow> JSDate" where
  "localClock h m =
     \<lparr> timeValue = 1762128000000 + (h * 60 + m) * 60000 - 19800000, localTZA = 19800000 \<rparr>"

definition exampleMedicine :: "string \<Rightarrow> string \<Rightarrow> string list \<Rightarrow> Medicine" where
  "exampleMedicine i f tms =
     \<lparr> id_m = i, name = ''Lisinopril'', dosage = ''10mg'', frequency = f, times_m = tms,
       startDate = ''2025-11-03'', endDate = None, notes_m = None, color = ''#ef4444'' \<rparr>"

text \<open>The medicine of the specification's scenarios.\<close>

definition twiceDaily :: Medicine where
  "twiceDaily = exampleMedicine ''1762100000000'' ''twice-daily'' [''08:00'', ''20:00'']"

definition fourTimesDaily :: Medicine where
  "fourTimesDaily =
     exampleMedicine ''1762100000001'' ''four-times-daily'' [''08:00'', ''12:00'', ''16:00'', ''20:00'']"

text \<open>A medicine whose times were entered evening first.\<close>

definition eveningFirst :: Medicine where
  "eveningFirst = exampleMedicine ''1762100000002'' ''twice-daily'' [''20:00'', ''08:00'']"

text \<open>A second medicine with a dose at 08:00.\<close>

definition onceDaily :: Medicine where
  "onceDaily = exampleMedicine ''1762100000003'' ''once-daily'' [''08:00'']"

text \<open>
  A freshly loaded application with the scenario's medicine: nothing logged, nothing
  taken from the card, the alert in its initial state.
\<close>

definition exampleSystem :: System where
  "exampleSystem =
     \<lparr> application = \<lparr> medicines = [twiceDaily], medicineLog = [] \<rparr>,
       takenTimesOf = (\<lambda>_. []),
       alert = initialNotificationState \<rparr>"

text \<open>The notification of the scenario's medicine for its slot at 08:00.\<close>

definition morningNotification :: DueNotification where
  "morningNotification =
     \<lparr> medicine_n = twiceDaily, time_n = ''08:00'', id_n = ''1762100000000-08:00'' \<rparr>"

section \<open>Facts about the clock\<close>

lemma minutes_of_day: "HourFromTime t * 60 + MinFromTime t = TimeWithinDay t div msPerMinute"
proof -
  define q where "q = t div 60000"
  have a: "t div 3600000 = q div 60"
    using zdiv_zmult2_eq[of 60 t 60000] by (simp add: q_def)
  have b: "t mod 86400000 = 60000 * (q mod 1440) + t mod 60000"
    using zmod_zmult2_eq[of 1440 t 60000] by (simp add: q_def)
  have c: "q mod 1440 = 60 * (q div 60 mod 24) + q mod 60"
    using zmod_zmult2_eq[of 24 q 60] by simp
  have d: "(60000 * (q mod 1440) + t mod 60000) div 60000 = q mod 1440"
    by simp
  have "HourFromTime t * 60 + MinFromTime t = (q div 60 mod 24) * 60 + q mod 60"
    unfolding HourFromTime_def MinFromTime_def msPerHour_def msPerMinute_def a q_def[symmetric] ..
  also have "\<dots> = q mod 1440" using c by linarith
  also have "\<dots> = TimeWithinDay t div msPerMinute"
    unfolding TimeWithinDay_def msPerDay_def msPerMinute_def b d ..
  finally show ?thesis .
qed

lemma TimeWithinDay_range: "0 \<le> TimeWithinDay t \<and> TimeWithinDay t < msPerDay"
  by (simp add: TimeWithinDay_def msPerDay_def)

lemma currentMinutes_eq: "currentMinutes now = TimeWithinDay (LocalTime now) div msPerMinute"
  by (simp add: currentMinutes_def getHours_def getMinutes_def minutes_of_day)

lemma currentMinutes_bounds:
  "currentMinutes now * msPerMinute \<le> TimeWithinDay (LocalTime now) \<and>
   TimeWithinDay (LocalTime now) < currentMinutes now * msPerMinute + msPerMinute"
proof -
  define w where "w = TimeWithinDay (LocalTime now)"
  have "w = 60000 * (w div 60000) + w mod 60000" by simp
  moreover have "0 \<le> w mod 60000" "w mod 60000 < 60000" by simp_all
  ultimately have "w div 60000 * 60000 \<le> w \<and> w < w div 60000 * 60000 + 60000" by linarith
  then show ?thesis unfolding currentMinutes_eq msPerMinute_def w_def .
qed

lemma currentMinutes_range: "0 \<le> currentMinutes now \<and> currentMinutes now < 1440"
proof -
  have "0 \<le> TimeWithinDay (LocalTime now)" "TimeWithinDay (LocalTime now) < 86400000"
    using TimeWithinDay_range[of "LocalTime now"] by (simp_all add: msPerDay_def)
  then show ?thesis
    using currentMinutes_bounds[of now] unfolding msPerMinute_def by linarith
qed

lemma medicineMinutes_SomeD:
  "medicineMinutes t = Some mm \<Longrightarrow> \<exists>h m. hoursMinutes t = (Some h, Some m) \<and> mm = h * 60 + m"
  by (auto simp: medicineMinutes_def split: prod.splits option.splits)

lemma medicineTime_None: "medicineMinutes t = None \<Longrightarrow> medicineTime now t = None"
  by (auto simp: medicineMinutes_def medicineTime_def setHours_def split: prod.splits option.splits)

text \<open>
  The slot's instant today lies as far from now as the slot's minute of the day lies from
  the local time of day of now.
\<close>

lemma medicineTime_Some:
  assumes "medicineMinutes t = Some mm"
  shows "medicineTime now t = Some (getTime now - (TimeWithinDay (LocalTime now) - mm * msPerMinute))"
proof -
  obtain h m where hm: "hoursMinutes t = (Some h, Some m)" and mm: "mm = h * 60 + m"
    using medicineMinutes_SomeD[OF assms] by blast
  define l where "l = LocalTime now"
  have l: "l = l div 86400000 * 86400000 + l mod 86400000" by simp
  have "MakeDate (Day l) (MakeTime h m 0 0) - localTZA now
        = timeValue now - (l mod 86400000 - (h * 60 + m) * 60000)"
    unfolding MakeDate_def MakeTime_def Day_def msPerDay_def msPerHour_def msPerMinute_def msPerSecond_def
    using l by (simp add: l_def LocalTime_def algebra_simps)
  then show ?thesis
    by (simp add: medicineTime_def hm setHours_def mm getTime_def TimeWithinDay_def msPerDay_def
          msPerMinute_def l_def)
qed

section \<open>Evaluating the examples\<close>

lemmas parse_eval =
  medicineMinutes_def hoursMinutes_def Number_def isDigit_def digits10_def digitValue_def

lemmas clock_eval =
  localClock_def currentMinutes_def getHours_def getMinutes_def HourFromTime_def MinFromTime_def
  LocalTime_def TimeWithinDay_def msPerHour_def msPerMinute_def msPerDay_def

lemmas example_eval =
  exampleMedicine_def twiceDaily_def fourTimesDaily_def eveningFirst_def onceDaily_def

lemma medicineMinutes_0800: "medicineMinutes ''08:00'' = Some 480"
  by (simp add: parse_eval)

lemma medicineMinutes_2000: "medicineMinutes ''20:00'' = Some 1200"
  by (simp add: parse_eval)

section \<open>The classifier of the card\<close>

lemma isDueNow_iff:
  "isDueNow now t =
     (case medicineMinutes t of
        None \<Rightarrow> False
      | Some mm \<Rightarrow> \<bar>TimeWithinDay (LocalTime now) - mm * msPerMinute\<bar> \<le> 15 * msPerMinute)"
proof (cases "medicineMinutes t")
  case None
  then show ?thesis by (simp add: isDueNow_def medicineTime_None)
next
  case (Some mm)
  define x where "x = TimeWithinDay (LocalTime now) - mm * msPerMinute"
  have "(\<bar>real_of_int x\<bar> / (1000 * 60) \<le> 15) = (\<bar>real_of_int x\<bar> \<le> 900000)"
    by (simp add: field_simps)
  also have "\<dots> = (\<bar>x\<bar> \<le> 900000)" by linarith
  finally have "(\<bar>real_of_int x\<bar> / (1000 * 60) \<le> 15) = (\<bar>x\<bar> \<le> 15 * msPerMinute)"
    by (simp add: msPerMinute_def)
  then show ?thesis
    unfolding isDueNow_def medicineTime_Some[OF Some] Some x_def by (simp add: Let_def)
qed

lemma isOverdue_iff:
  "isOverdue taken now t =
     (case medicineMinutes t of
        None \<Rightarrow> False
      | Some mm \<Rightarrow> mm * msPerMinute < TimeWithinDay (LocalTime now) \<and> t \<notin> set taken)"
proof (cases "medicineMinutes t")
  case None
  then show ?thesis by (simp add: isOverdue_def medicineTime_None)
next
  case (Some mm)
  then show ?thesis
    by (simp add: isOverdue_def medicineTime_Some[OF Some])
qed

text \<open>The border of a row shows overdue only when the row is not due now.\<close>

lemma border_prefers_due_now: "(rowBorder r = BorderDestructive) = (overdue r \<and> \<not> isDue r)"
  by (simp add: rowBorder_def)

text \<open>
  Claim C3. The card reports a slot as due now (the badge Due Now) exactly when the slot's
  time today and now are at most 15 minutes of wall-clock time apart and the time is not
  among the taken times of the card. At any instant of the minute 08:03 an untaken slot
  08:00 is due now, and a slot 20:00 is neither due now nor overdue.
\<close>

theorem due_now_classifier:
  "(dueNowBadge (scheduleRow takenTimes now t) =
      (case medicineMinutes t of
         None \<Rightarrow> False
       | Some mm \<Rightarrow> \<bar>TimeWithinDay (LocalTime now) - mm * msPerMinute\<bar> \<le> 15 * msPerMinute
                    \<and> t \<notin> set takenTimes))
   \<and> (currentMinutes now = 8 * 60 + 3 \<and> ''08:00'' \<notin> set takenTimes \<longrightarrow>
        dueNowBadge (scheduleRow takenTimes now ''08:00'')
        \<and> \<not> dueNowBadge (scheduleRow takenTimes now ''20:00'')
        \<and> \<not> overdueBadge (scheduleRow takenTimes now ''20:00''))"
proof (intro conjI impI)
  show "dueNowBadge (scheduleRow takenTimes now t) =
      (case medicineMinutes t of
         None \<Rightarrow> False
       | Some mm \<Rightarrow> \<bar>TimeWithinDay (LocalTime now) - mm * msPerMinute\<bar> \<le> 15 * msPerMinute
                    \<and> t \<notin> set takenTimes)"
    by (simp add: dueNowBadge_def scheduleRow_def isDueNow_iff split: option.splits)
next
  assume a: "currentMinutes now = 8 * 60 + 3 \<and> ''08:00'' \<notin> set takenTimes"
  define w where "w = TimeWithinDay (LocalTime now)"
  have w: "28980000 \<le> w" "w < 29040000"
    using currentMinutes_bounds[of now] a by (simp_all add: w_def msPerMinute_def)
  show "dueNowBadge (scheduleRow takenTimes now ''08:00'')"
    using w a
    by (simp add: dueNowBadge_def scheduleRow_def isDueNow_iff medicineMinutes_0800
          msPerMinute_def w_def[symmetric])
  show "\<not> dueNowBadge (scheduleRow takenTimes now ''20:00'')"
    using w
    by (simp add: dueNowBadge_def scheduleRow_def isDueNow_iff medicineMinutes_2000
          msPerMinute_def w_def[symmetric])
  show "\<not> overdueBadge (scheduleRow takenTimes now ''20:00'')"
    using w
    by (simp add: overdueBadge_def scheduleRow_def isOverdue_iff medicineMinutes_2000
          msPerMinute_def w_def[symmetric])
qed

theorem due_now_classifier_witness:
  "currentMinutes (localClock 8 3) = 8 * 60 + 3
   \<and> ''08:00'' \<notin> set []
   \<and> dueNowBadge (scheduleRow [] (localClock 8 3) ''08:00'')
   \<and> \<not> dueNowBadge (scheduleRow [] (localClock 8 3) ''20:00'')"
proof -
  have h: "currentMinutes (localClock 8 3) = 8 * 60 + 3 \<and> ''08:00'' \<notin> set []"
    by (simp add: clock_eval)
  show ?thesis
    using h due_now_classifier[of "[]" "localClock 8 3" "''08:00''"] by blast
qed

text \<open>
  Claim C2, as amended. The card reports a slot as overdue (the badge Overdue) exactly
  when now is strictly after the slot's time today and the time is not among the taken
  times of the card, whether or not the slot is also due now. At any instant of the
  minute 08:20 an untaken slot 08:00 is overdue and no longer due now.
\<close>

theorem overdue_classifier:
  "(overdueBadge (scheduleRow takenTimes now t) =
      (case medicineMinutes t of
         None \<Rightarrow> False
       | Some mm \<Rightarrow> mm * msPerMinute < TimeWithinDay (LocalTime now) \<and> t \<notin> set takenTimes))
   \<and> (currentMinutes now = 8 * 60 + 20 \<and> ''08:00'' \<notin> set takenTimes \<longrightarrow>
        overdueBadge (scheduleRow takenTimes now ''08:00'')
        \<and> \<not> dueNowBadge (scheduleRow takenTimes now ''08:00''))"
proof (intro conjI impI)
  show "overdueBadge (scheduleRow takenTimes now t) =
      (case medicineMinutes t of
         None \<Rightarrow> False
       | Some mm \<Rightarrow> mm * msPerMinute < TimeWithinDay (LocalTime now) \<and> t \<notin> set takenTimes)"
    by (simp add: overdueBadge_def scheduleRow_def isOverdue_iff split: option.splits)
next
  assume a: "currentMinutes now = 8 * 60 + 20 \<and> ''08:00'' \<notin> set takenTimes"
  define w where "w = TimeWithinDay (LocalTime now)"
  have w: "30000000 \<le> w" "w < 30060000"
    using currentMinutes_bounds[of now] a by (simp_all add: w_def msPerMinute_def)
  show "overdueBadge (scheduleRow takenTimes now ''08:00'')"
    using w a
    by (simp add: overdueBadge_def scheduleRow_def isOverdue_iff medicineMinutes_0800
          msPerMinute_def w_def[symmetric])
  show "\<not> dueNowBadge (scheduleRow takenTimes now ''08:00'')"
    using w
    by (simp add: dueNowBadge_def scheduleRow_def isDueNow_iff medicineMinutes_0800
          msPerMinute_def w_def[symmetric])
qed

theorem overdue_classifier_witness:
  "currentMinutes (localClock 8 20) = 8 * 60 + 20
   \<and> ''08:00'' \<notin> set []
   \<and> overdueBadge (scheduleRow [] (localClock 8 20) ''08:00'')"
proof -
  have h: "currentMinutes (localClock 8 20) = 8 * 60 + 20 \<and> ''08:00'' \<notin> set []"
    by (simp add: clock_eval)
  show ?thesis
    using h overdue_classifier[of "[]" "localClock 8 20" "''08:00''"] by blast
qed

text \<open>
  Against C2 as written: at 08:05 the untaken slot 08:00 is inside the 15-minute window,
  it is reported due now, and it is reported overdue at the same time.
\<close>

theorem overdue_inside_due_window:
  "currentMinutes (localClock 8 5) = 8 * 60 + 5
   \<and> dueNowBadge (scheduleRow [] (localClock 8 5) ''08:00'')
   \<and> overdueBadge (scheduleRow [] (localClock 8 5) ''08:00'')"
  by (simp add: overdueBadge_def dueNowBadge_def scheduleRow_def isOverdue_iff isDueNow_iff
        medicineMinutes_0800 clock_eval)

section \<open>The dose projector\<close>

lemma upcomingTimes_append:
  "upcomingTimes medicine cur ts acc =
     acc @ concat (map (\<lambda>t.
              case medicineMinutes t of
                Some mm \<Rightarrow>
                  (if mm > cur
                   then [\<lparr> medicine_u = medicine, time_u = t, minutesUntil = mm - cur \<rparr>]
                   else [])
              | None \<Rightarrow> []) ts)"
  by (induction ts arbitrary: acc) (auto split: option.splits)

lemma upcomingLoop_append: "upcomingLoop cur meds acc = acc @ upcomingPairs meds cur"
proof (induction meds arbitrary: acc)
  case Nil
  then show ?case by (simp add: upcomingPairs_def)
next
  case (Cons m ms)
  show ?case
    by (simp add: Cons.IH upcomingTimes_append upcomingPairs_def)
qed

lemma upcomingPairs_positive: "e \<in> set (upcomingPairs meds cur) \<Longrightarrow> 0 < minutesUntil e"
  by (auto simp: upcomingPairs_def split: if_splits option.splits)

lemma upcomingPairs_set:
  "(e \<in> set (upcomingPairs meds cur)) =
     (\<exists>m t mm. m \<in> set meds \<and> t \<in> set (times_m m) \<and> frequency m \<noteq> ''as-needed''
        \<and> medicineMinutes t = Some mm \<and> cur < mm
        \<and> e = \<lparr> medicine_u = m, time_u = t, minutesUntil = mm - cur \<rparr>)"
  (is "?L = ?R")
proof
  assume ?L
  then obtain m t where m: "m \<in> set meds" "frequency m \<noteq> ''as-needed''" and t: "t \<in> set (times_m m)"
    and e: "e \<in> set (case medicineMinutes t of
                Some mm \<Rightarrow>
                  (if mm > cur
                   then [\<lparr> medicine_u = m, time_u = t, minutesUntil = mm - cur \<rparr>]
                   else [])
              | None \<Rightarrow> [])"
    unfolding upcomingPairs_def by (auto split: if_splits)
  from e obtain mm where "medicineMinutes t = Some mm" "cur < mm"
      "e = \<lparr> medicine_u = m, time_u = t, minutesUntil = mm - cur \<rparr>"
    by (cases "medicineMinutes t") (auto split: if_splits)
  with m t show ?R by blast
next
  assume ?R
  then obtain m t mm where m: "m \<in> set meds" "frequency m \<noteq> ''as-needed''" and t: "t \<in> set (times_m m)"
    and r: "medicineMinutes t = Some mm" "cur < mm"
      "e = \<lparr> medicine_u = m, time_u = t, minutesUntil = mm - cur \<rparr>"
    by blast
  have "e \<in> set (case medicineMinutes t of
                Some mm \<Rightarrow>
                  (if mm > cur
                   then [\<lparr> medicine_u = m, time_u = t, minutesUntil = mm - cur \<rparr>]
                   else [])
              | None \<Rightarrow> [])"
    using r by simp
  with m t show ?L
    unfolding upcomingPairs_def by fastforce
qed

lemma currentMinutes_0700: "currentMinutes (localClock 7 0) = 420"
  by (simp add: clock_eval)

text \<open>
  Claim C1, as amended. \<^verbatim>\<open>getUpcomingMedicines\<close> returns the first three entries of the
  sequence that has one entry, with \<open>minutesUntil\<close> the slot's minute less now's minute,
  for every pair of a medicine that is not as needed and a slot time whose minute of the
  day is after now's, sorted ascending by \<open>minutesUntil\<close>, entries of equal \<open>minutesUntil\<close>
  in insertion order; every \<open>minutesUntil\<close> is positive.
\<close>

theorem upcoming_is_first_three:
  "getUpcomingMedicines meds now = take 3 (upcomingDoses meds now)
   \<and> sorted (map minutesUntil (upcomingDoses meds now))
   \<and> (\<forall>k. filter (\<lambda>e. minutesUntil e = k) (upcomingDoses meds now)
          = filter (\<lambda>e. minutesUntil e = k) (upcomingPairs meds (currentMinutes now)))
   \<and> (\<forall>e. (e \<in> set (upcomingDoses meds now)) =
          (\<exists>m t mm. m \<in> set meds \<and> t \<in> set (times_m m) \<and> frequency m \<noteq> ''as-needed''
             \<and> medicineMinutes t = Some mm \<and> currentMinutes now < mm
             \<and> e = \<lparr> medicine_u = m, time_u = t, minutesUntil = mm - currentMinutes now \<rparr>))
   \<and> (\<forall>e \<in> set (upcomingDoses meds now). 0 < minutesUntil e)"
proof (intro conjI allI ballI)
  show "getUpcomingMedicines meds now = take 3 (upcomingDoses meds now)"
    by (simp add: getUpcomingMedicines_def upcomingDoses_def upcomingLoop_append)
  show "sorted (map minutesUntil (upcomingDoses meds now))"
    by (simp add: upcomingDoses_def)
  show "filter (\<lambda>e. minutesUntil e = k) (upcomingDoses meds now)
          = filter (\<lambda>e. minutesUntil e = k) (upcomingPairs meds (currentMinutes now))" for k
    by (simp add: upcomingDoses_def sort_key_stable)
  show "(e \<in> set (upcomingDoses meds now)) =
          (\<exists>m t mm. m \<in> set meds \<and> t \<in> set (times_m m) \<and> frequency m \<noteq> ''as-needed''
             \<and> medicineMinutes t = Some mm \<and> currentMinutes now < mm
             \<and> e = \<lparr> medicine_u = m, time_u = t, minutesUntil = mm - currentMinutes now \<rparr>)" for e
    by (simp add: upcomingDoses_def upcomingPairs_set)
  show "0 < minutesUntil e" if "e \<in> set (upcomingDoses meds now)" for e
    using that by (auto simp: upcomingDoses_def dest: upcomingPairs_positive)
qed

theorem upcoming_is_first_three_witness:
  "\<lparr> medicine_u = twiceDaily, time_u = ''08:00'', minutesUntil = 60 \<rparr>
     \<in> set (upcomingDoses [twiceDaily] (localClock 7 0))
   \<and> 0 < minutesUntil \<lparr> medicine_u = twiceDaily, time_u = ''08:00'', minutesUntil = 60 \<rparr>
   \<and> getUpcomingMedicines [twiceDaily] (localClock 7 0)
       = [\<lparr> medicine_u = twiceDaily, time_u = ''08:00'', minutesUntil = 60 \<rparr>,
          \<lparr> medicine_u = twiceDaily, time_u = ''20:00'', minutesUntil = 780 \<rparr>]"
proof -
  have f: "frequency twiceDaily = ''twice-daily''" "times_m twiceDaily = [''08:00'', ''20:00'']"
    by (simp_all add: example_eval)
  have d: "upcomingDoses [twiceDaily] (localClock 7 0)
       = [\<lparr> medicine_u = twiceDaily, time_u = ''08:00'', minutesUntil = 60 \<rparr>,
          \<lparr> medicine_u = twiceDaily, time_u = ''20:00'', minutesUntil = 780 \<rparr>]"
    by (simp add: upcomingDoses_def upcomingPairs_def currentMinutes_0700 parse_eval f)
  show ?thesis
    using upcoming_is_first_three[of "[twiceDaily]" "localClock 7 0"] by (simp add: d)
qed

text \<open>
  Against C1 as written: of the four doses of a four-times-daily medicine that are still
  ahead at 07:00, the one at 20:00 is not returned.
\<close>

theorem upcoming_truncated:
  "map time_u (upcomingDoses [fourTimesDaily] (localClock 7 0)) = [''08:00'', ''12:00'', ''16:00'', ''20:00'']
   \<and> map time_u (getUpcomingMedicines [fourTimesDaily] (localClock 7 0)) = [''08:00'', ''12:00'', ''16:00'']"
  by (simp add: getUpcomingMedicines_def upcomingDoses_def upcomingPairs_def currentMinutes_0700
        example_eval parse_eval)

section \<open>The due set of the notification alert\<close>

lemma dueTimes_append:
  "dueTimes medicine cur dismissed ts acc =
     acc @ concat (map (\<lambda>t.
       case medicineMinutes t of
         Some mm \<Rightarrow>
           (if \<bar>cur - mm\<bar> \<le> 5 \<and> notificationId medicine t \<notin> set dismissed
            then [\<lparr> medicine_n = medicine, time_n = t, id_n = notificationId medicine t \<rparr>]
            else [])
       | None \<Rightarrow> []) ts)"
  by (induction ts arbitrary: acc) (auto split: option.splits simp: Let_def)

lemma dueLoop_append:
  "dueLoop cur dismissed meds acc =
     acc @ concat (map (\<lambda>medicine.
       if frequency medicine = ''as-needed'' then []
       else concat (map (\<lambda>t.
         case medicineMinutes t of
           Some mm \<Rightarrow>
             (if \<bar>cur - mm\<bar> \<le> 5 \<and> notificationId medicine t \<notin> set dismissed
              then [\<lparr> medicine_n = medicine, time_n = t, id_n = notificationId medicine t \<rparr>]
              else [])
         | None \<Rightarrow> []) (times_m medicine))) meds)"
proof (induction meds arbitrary: acc)
  case Nil
  then show ?case by simp
next
  case (Cons m ms)
  show ?case
    by (simp add: Cons.IH dueTimes_append[of m cur dismissed "times_m m" acc])
qed

lemma newDueNotifications_set:
  "(n \<in> set (newDueNotifications meds now dismissed)) =
     (\<exists>m t mm. m \<in> set meds \<and> t \<in> set (times_m m) \<and> frequency m \<noteq> ''as-needed''
        \<and> medicineMinutes t = Some mm \<and> \<bar>currentMinutes now - mm\<bar> \<le> 5
        \<and> notificationId m t \<notin> set dismissed
        \<and> n = \<lparr> medicine_n = m, time_n = t, id_n = notificationId m t \<rparr>)"
  (is "?L = ?R")
proof
  assume ?L
  then obtain m t where m: "m \<in> set meds" "frequency m \<noteq> ''as-needed''" and t: "t \<in> set (times_m m)"
    and n: "n \<in> set (case medicineMinutes t of
           Some mm \<Rightarrow>
             (if \<bar>currentMinutes now - mm\<bar> \<le> 5 \<and> notificationId m t \<notin> set dismissed
              then [\<lparr> medicine_n = m, time_n = t, id_n = notificationId m t \<rparr>]
              else [])
         | None \<Rightarrow> [])"
    unfolding newDueNotifications_def dueLoop_append by (auto split: if_splits)
  from n obtain mm where "medicineMinutes t = Some mm" "\<bar>currentMinutes now - mm\<bar> \<le> 5"
      "notificationId m t \<notin> set dismissed" "n = \<lparr> medicine_n = m, time_n = t, id_n = notificationId m t \<rparr>"
    by (cases "medicineMinutes t") (auto split: if_splits)
  with m t show ?R by blast
next
  assume ?R
  then obtain m t mm where m: "m \<in> set meds" "frequency m \<noteq> ''as-needed''" and t: "t \<in> set (times_m m)"
    and r: "medicineMinutes t = Some mm" "\<bar>currentMinutes now - mm\<bar> \<le> 5"
      "notificationId m t \<notin> set dismissed" "n = \<lparr> medicine_n = m, time_n = t, id_n = notificationId m t \<rparr>"
    by blast
  have "n \<in> set (case medicineMinutes t of
           Some mm \<Rightarrow>
             (if \<bar>currentMinutes now - mm\<bar> \<le> 5 \<and> notificationId m t \<notin> set dismissed
              then [\<lparr> medicine_n = m, time_n = t, id_n = notificationId m t \<rparr>]
              else [])
         | None \<Rightarrow> [])"
    using r by simp
  with m t show ?L
    unfolding newDueNotifications_def dueLoop_append by fastforce
qed

lemma dueNotifications_check:
  "dueNotifications (checkForDueMedicines meds now s)
     = newDueNotifications meds now (dismissedNotifications s)"
  by (simp add: checkForDueMedicines_def Let_def)

lemmas system_eval =
  exampleSystem_def initialNotificationState_def morningNotification_def tick_def cardTake_def
  notificationTake_def cardRow_def checkForDueMedicines_def newDueNotifications_def
  notificationId_def dismissNotification_def handleTakeMedicine_def

lemma currentMinutes_0800: "currentMinutes (localClock 8 0) = 480"
  by (simp add: clock_eval)

lemma currentMinutes_0801: "currentMinutes (localClock 8 1) = 481"
  by (simp add: clock_eval)

lemma currentMinutes_0802: "currentMinutes (localClock 8 2) = 482"
  by (simp add: clock_eval)

lemma currentMinutes_0803: "currentMinutes (localClock 8 3) = 483"
  by (simp add: clock_eval)

lemma currentMinutes_0805: "currentMinutes (localClock 8 5) = 485"
  by (simp add: clock_eval)

lemma twiceDaily_fields:
  "id_m twiceDaily = ''1762100000000''" "frequency twiceDaily = ''twice-daily''"
  "times_m twiceDaily = [''08:00'', ''20:00'']" "name twiceDaily = ''Lisinopril''"
  by (simp_all add: example_eval)

lemma onceDaily_fields:
  "id_m onceDaily = ''1762100000003''" "frequency onceDaily = ''once-daily''"
  "times_m onceDaily = [''08:00'']"
  by (simp_all add: example_eval)

text \<open>
  Claim C5. Every tick replaces the due set by a newly computed one, whatever the previous
  due set was: a notification id is in it exactly when it is the id
  \<^verbatim>\<open>medicineId-time\<close> of a medicine that is not as needed and one of its times whose
  minute of the day differs from now's by at most 5, and the id is not dismissed.
\<close>

theorem due_set_recomputed:
  "dueNotifications (checkForDueMedicines meds now s)
     = newDueNotifications meds now (dismissedNotifications s)
   \<and> (i \<in> id_n ` set (dueNotifications (checkForDueMedicines meds now s))) =
       (\<exists>m t mm. m \<in> set meds \<and> t \<in> set (times_m m) \<and> frequency m \<noteq> ''as-needed''
          \<and> medicineMinutes t = Some mm \<and> \<bar>currentMinutes now - mm\<bar> \<le> 5
          \<and> i = notificationId m t \<and> i \<notin> set (dismissedNotifications s))
   \<and> dueNotifications (checkForDueMedicines meds now (s\<lparr> dueNotifications := previous \<rparr>))
       = dueNotifications (checkForDueMedicines meds now s)"
proof (intro conjI)
  show "dueNotifications (checkForDueMedicines meds now s)
     = newDueNotifications meds now (dismissedNotifications s)"
    by (rule dueNotifications_check)
  show "(i \<in> id_n ` set (dueNotifications (checkForDueMedicines meds now s))) =
       (\<exists>m t mm. m \<in> set meds \<and> t \<in> set (times_m m) \<and> frequency m \<noteq> ''as-needed''
          \<and> medicineMinutes t = Some mm \<and> \<bar>currentMinutes now - mm\<bar> \<le> 5
          \<and> i = notificationId m t \<and> i \<notin> set (dismissedNotifications s))"
    unfolding dueNotifications_check image_iff Bex_def newDueNotifications_set
    by (rule iffI; fastforce)
  show "dueNotifications (checkForDueMedicines meds now (s\<lparr> dueNotifications := previous \<rparr>))
       = dueNotifications (checkForDueMedicines meds now s)"
    by (simp add: dueNotifications_check)
qed

theorem due_set_recomputed_witness:
  "''1762100000000-08:00'' \<in> id_n ` set (dueNotifications
       (checkForDueMedicines [twiceDaily] (localClock 8 3) initialNotificationState))
   \<and> ''1762100000000-20:00'' \<notin> id_n ` set (dueNotifications
       (checkForDueMedicines [twiceDaily] (localClock 8 3) initialNotificationState))"
proof -
  have yes: "\<exists>m t mm. m \<in> set [twiceDaily] \<and> t \<in> set (times_m m) \<and> frequency m \<noteq> ''as-needed''
          \<and> medicineMinutes t = Some mm \<and> \<bar>currentMinutes (localClock 8 3) - mm\<bar> \<le> 5
          \<and> ''1762100000000-08:00'' = notificationId m t
          \<and> ''1762100000000-08:00'' \<notin> set (dismissedNotifications initialNotificationState)"
    by (rule exI[of _ twiceDaily], rule exI[of _ "''08:00''"], rule exI[of _ 480])
       (simp add: twiceDaily_fields medicineMinutes_0800 currentMinutes_0803 notificationId_def
          initialNotificationState_def)
  have no: "\<not> (\<exists>m t mm. m \<in> set [twiceDaily] \<and> t \<in> set (times_m m) \<and> frequency m \<noteq> ''as-needed''
          \<and> medicineMinutes t = Some mm \<and> \<bar>currentMinutes (localClock 8 3) - mm\<bar> \<le> 5
          \<and> ''1762100000000-20:00'' = notificationId m t
          \<and> ''1762100000000-20:00'' \<notin> set (dismissedNotifications initialNotificationState))"
    by (auto simp: twiceDaily_fields medicineMinutes_2000 currentMinutes_0803 notificationId_def)
  note a = due_set_recomputed[where i = "''1762100000000-08:00''" and meds = "[twiceDaily]"
        and now = "localClock 8 3" and s = initialNotificationState, THEN conjunct2, THEN conjunct1]
  note b = due_set_recomputed[where i = "''1762100000000-20:00''" and meds = "[twiceDaily]"
        and now = "localClock 8 3" and s = initialNotificationState, THEN conjunct2, THEN conjunct1]
  show ?thesis
    unfolding a b using yes no by (intro conjI)
qed

section \<open>The alarm sound\<close>

lemma check_alarm:
  "alarmSoundCalls (checkForDueMedicines meds now s) =
     alarmSoundCalls s +
       (if soundEnabled s \<and>
           (\<exists>i. i \<in> id_n ` set (newDueNotifications meds now (dismissedNotifications s))
                \<and> i \<notin> set (hasPlayedSound s))
        then 1 else 0)"
  by (auto simp: checkForDueMedicines_def Let_def list_ex_iff)

lemma check_played:
  "set (hasPlayedSound (checkForDueMedicines meds now s)) =
     set (hasPlayedSound s) \<union>
       (if soundEnabled s \<and>
           (\<exists>i. i \<in> id_n ` set (newDueNotifications meds now (dismissedNotifications s))
                \<and> i \<notin> set (hasPlayedSound s))
        then id_n ` set (newDueNotifications meds now (dismissedNotifications s)) else {})"
  by (auto simp: checkForDueMedicines_def Let_def list_ex_iff)

text \<open>
  While the alert stays mounted nothing removes an id from \<^verbatim>\<open>hasPlayedSound\<close>, and a tick
  that sounds the alarm does so for an id that was not played before.
\<close>

lemma step_played_mono:
  "e \<noteq> FormShownAndClosed \<Longrightarrow> set (hasPlayedSound s) \<subseteq> set (hasPlayedSound (step e s))"
  by (cases e)
     (auto simp: check_played dismissNotification_def toggleSound_def handlePlayAlarmSound_def)

lemma run_played_mono:
  "FormShownAndClosed \<notin> set es \<Longrightarrow> set (hasPlayedSound s) \<subseteq> set (hasPlayedSound (run es s))"
proof (induction es arbitrary: s)
  case Nil
  then show ?case by simp
next
  case (Cons e es)
  have "set (hasPlayedSound s) \<subseteq> set (hasPlayedSound (step e s))"
    using Cons.prems by (intro step_played_mono) auto
  also have "\<dots> \<subseteq> set (hasPlayedSound (run es (step e s)))"
    using Cons.prems by (intro Cons.IH) auto
  finally show ?case by simp
qed

lemma no_repeat_while_mounted:
  assumes "FormShownAndClosed \<notin> set es"
    and "i \<in> set (hasPlayedSound s)"
    and "alarmSoundCalls (checkForDueMedicines meds now (run es s)) \<noteq> alarmSoundCalls (run es s)"
  shows "soundEnabled (run es s)
     \<and> (\<exists>j. j \<in> id_n ` set (dueNotifications (checkForDueMedicines meds now (run es s)))
           \<and> j \<notin> set (hasPlayedSound (run es s)) \<and> j \<noteq> i)"
proof -
  define s' where "s' = run es s"
  have i: "i \<in> set (hasPlayedSound s')"
    using assms(2) run_played_mono[OF assms(1), of s] by (auto simp: s'_def)
  from assms(3) have fired: "soundEnabled s' \<and>
           (\<exists>j. j \<in> id_n ` set (newDueNotifications meds now (dismissedNotifications s'))
                \<and> j \<notin> set (hasPlayedSound s'))"
    unfolding s'_def[symmetric] check_alarm[of meds now s'] by (simp split: if_splits)
  then obtain j where "j \<in> id_n ` set (newDueNotifications meds now (dismissedNotifications s'))"
    "j \<notin> set (hasPlayedSound s')" by blast
  with i fired show ?thesis
    unfolding s'_def[symmetric] dueNotifications_check by blast
qed

lemma first_tick:
  "checkForDueMedicines [twiceDaily] (localClock 8 0) initialNotificationState =
     \<lparr> dueNotifications = [morningNotification], dismissedNotifications = [], soundEnabled = True,
       hasPlayedSound = [''1762100000000-08:00''], alarmSoundCalls = 1 \<rparr>"
  by (simp add: system_eval currentMinutes_0800 twiceDaily_fields parse_eval)

lemma second_tick:
  "run [Tick [twiceDaily] (localClock 8 0), Tick [twiceDaily] (localClock 8 1)]
       initialNotificationState
     = \<lparr> dueNotifications = [morningNotification], dismissedNotifications = [], soundEnabled = True,
         hasPlayedSound = [''1762100000000-08:00''], alarmSoundCalls = 1 \<rparr>"
  by (simp add: first_tick)
     (simp add: checkForDueMedicines_def newDueNotifications_def notificationId_def
        morningNotification_def currentMinutes_0801 twiceDaily_fields parse_eval)

lemma tick_after_remount:
  "run [Tick [twiceDaily] (localClock 8 0), Tick [twiceDaily] (localClock 8 1),
        FormShownAndClosed, Tick [twiceDaily] (localClock 8 2)] initialNotificationState
     = \<lparr> dueNotifications = [morningNotification], dismissedNotifications = [], soundEnabled = True,
         hasPlayedSound = [''1762100000000-08:00''], alarmSoundCalls = 2 \<rparr>"
  by (simp add: first_tick)
     (simp add: checkForDueMedicines_def newDueNotifications_def notificationId_def remountAlert_def
        initialNotificationState_def morningNotification_def currentMinutes_0801 currentMinutes_0802
        twiceDaily_fields parse_eval)

text \<open>
  Claim C6, at the input where the code departs from it. The tick at 08:00 sounds the
  alarm for the notification of the 08:00 dose and puts its id into \<^verbatim>\<open>hasPlayedSound\<close>; the
  tick at 08:01 is silent, as the claim says. Then the user opens the Add Medicine form
  and closes it. The alert is mounted anew with an empty \<^verbatim>\<open>hasPlayedSound\<close>, and its check
  at 08:02, with the same single id in the due set, sounds the alarm a second time.
\<close>

theorem alarm_again_after_remount:
  "hasPlayedSound (run [Tick [twiceDaily] (localClock 8 0), Tick [twiceDaily] (localClock 8 1)]
       initialNotificationState) = [''1762100000000-08:00'']
   \<and> alarmSoundCalls (run [Tick [twiceDaily] (localClock 8 0), Tick [twiceDaily] (localClock 8 1)]
       initialNotificationState) = 1
   \<and> map id_n (dueNotifications (run [Tick [twiceDaily] (localClock 8 0),
        Tick [twiceDaily] (localClock 8 1), FormShownAndClosed, Tick [twiceDaily] (localClock 8 2)]
       initialNotificationState)) = [''1762100000000-08:00'']
   \<and> alarmSoundCalls (run [Tick [twiceDaily] (localClock 8 0),
        Tick [twiceDaily] (localClock 8 1), FormShownAndClosed, Tick [twiceDaily] (localClock 8 2)]
       initialNotificationState) = 2"
  unfolding second_tick tick_after_remount by (simp add: morningNotification_def)

section \<open>The adherence log\<close>

lemma length_padDigits: "length (padDigits k n) = k"
  by (induction k arbitrary: n) auto

lemma set_padDigits: "set (padDigits k n) \<subseteq> set digits10"
proof (induction k arbitrary: n)
  case 0
  then show ?case by simp
next
  case (Suc k)
  have "nat (n mod 10) < length digits10"
    by (simp add: digits10_def nat_less_iff)
  then have "digits10 ! nat (n mod 10) \<in> set digits10" by (rule nth_mem)
  with Suc.IH[of "n div 10"] show ?case by auto
qed

lemma T_not_digit: "CHR ''T'' \<notin> set digits10"
  by (simp add: digits10_def)

lemma T_not_in_padDigits: "CHR ''T'' \<notin> set (padDigits k n)"
  using set_padDigits[of k n] T_not_digit by blast

lemma T_not_in_isoDate: "CHR ''T'' \<notin> set (isoDate d)"
  by (auto simp: isoDate_def yearString_def T_not_in_padDigits split: prod.splits
      simp del: padDigits.simps)

lemma split_str_first: "c \<notin> set xs \<Longrightarrow> split_str c (xs @ c # ys) = xs # split_str c ys"
  by (induction xs) auto

lemma firstSegment_toISOString: "firstSegment CHR ''T'' (toISOString d) = isoDate d"
proof -
  obtain rest where "toISOString d = isoDate d @ CHR ''T'' # rest"
    by (simp add: toISOString_def)
  then show ?thesis
    by (simp add: firstSegment_def split_str_first[OF T_not_in_isoDate])
qed

lemma take5_toTimeString:
  "take 5 (toTimeString d) = padDigits 2 (getHours d) @ '':'' @ padDigits 2 (getMinutes d)"
proof -
  define p where "p = padDigits 2 (getHours d) @ '':'' @ padDigits 2 (getMinutes d)"
  obtain rest where r: "toTimeString d = p @ rest"
    by (simp add: toTimeString_def p_def del: padDigits.simps)
  have "length p = 5"
    by (simp add: p_def length_padDigits del: padDigits.simps)
  then have "take 5 (p @ rest) = p" by simp
  then show ?thesis unfolding r p_def .
qed

lemma find_None_iff_id: "(find (\<lambda>med. id_m med = mid) meds = None) = (mid \<notin> id_m ` set meds)"
  by (auto simp: find_None_iff)

text \<open>
  \<^verbatim>\<open>handleTakeMedicine\<close> has two cases and no other. When the id resolves to a medicine of
  the collection it appends exactly one entry to the log: the id, the name of the medicine
  found, the scheduled time, the local time of now as \<^verbatim>\<open>HH:MM\<close> and the UTC date of now as
  \<^verbatim>\<open>YYYY-MM-DD\<close>. When the id resolves to no medicine the state is unchanged.
\<close>

lemma record_taken:
  "(\<forall>medicine. find (\<lambda>med. id_m med = mid) (medicines app) = Some medicine \<longrightarrow>
      handleTakeMedicine mid t now app =
        app\<lparr> medicineLog := medicineLog app @
          [\<lparr> medicineId = mid, medicineName = name medicine, time = t,
             takenAt = padDigits 2 (getHours now) @ '':'' @ padDigits 2 (getMinutes now),
             date = isoDate now \<rparr>] \<rparr>
      \<and> getTodaysLog (handleTakeMedicine mid t now app) now =
          getTodaysLog app now @
          [\<lparr> medicineId = mid, medicineName = name medicine, time = t,
             takenAt = padDigits 2 (getHours now) @ '':'' @ padDigits 2 (getMinutes now),
             date = isoDate now \<rparr>])
   \<and> (mid \<in> id_m ` set (medicines app) \<longrightarrow>
        (\<exists>medicine. medicine \<in> set (medicines app) \<and> id_m medicine = mid
           \<and> find (\<lambda>med. id_m med = mid) (medicines app) = Some medicine))
   \<and> (mid \<notin> id_m ` set (medicines app) \<longrightarrow> handleTakeMedicine mid t now app = app)"
proof (intro conjI allI impI)
  fix medicine
  assume f: "find (\<lambda>med. id_m med = mid) (medicines app) = Some medicine"
  show eq: "handleTakeMedicine mid t now app =
        app\<lparr> medicineLog := medicineLog app @
          [\<lparr> medicineId = mid, medicineName = name medicine, time = t,
             takenAt = padDigits 2 (getHours now) @ '':'' @ padDigits 2 (getMinutes now),
             date = isoDate now \<rparr>] \<rparr>"
    by (simp add: handleTakeMedicine_def f take5_toTimeString firstSegment_toISOString Let_def
          del: padDigits.simps)
  show "getTodaysLog (handleTakeMedicine mid t now app) now =
          getTodaysLog app now @
          [\<lparr> medicineId = mid, medicineName = name medicine, time = t,
             takenAt = padDigits 2 (getHours now) @ '':'' @ padDigits 2 (getMinutes now),
             date = isoDate now \<rparr>]"
    unfolding eq by (simp add: getTodaysLog_def firstSegment_toISOString Let_def del: padDigits.simps)
next
  assume "mid \<in> id_m ` set (medicines app)"
  then have "find (\<lambda>med. id_m med = mid) (medicines app) \<noteq> None"
    by (simp add: find_None_iff_id)
  then obtain medicine where f: "find (\<lambda>med. id_m med = mid) (medicines app) = Some medicine"
    by blast
  then have "medicine \<in> set (medicines app) \<and> id_m medicine = mid"
    by (auto simp: find_Some_iff)
  with f show "\<exists>medicine. medicine \<in> set (medicines app) \<and> id_m medicine = mid
           \<and> find (\<lambda>med. id_m med = mid) (medicines app) = Some medicine" by blast
next
  assume "mid \<notin> id_m ` set (medicines app)"
  then have "find (\<lambda>med. id_m med = mid) (medicines app) = None"
    by (simp add: find_None_iff_id)
  then show "handleTakeMedicine mid t now app = app"
    by (simp add: handleTakeMedicine_def)
qed

lemma hhmm_0805:
  "padDigits 2 (getHours (localClock 8 5)) @ '':'' @ padDigits 2 (getMinutes (localClock 8 5)) = ''08:05''"
  by code_simp

lemma isoDate_0805: "isoDate (localClock 8 5) = ''2025-11-03''"
  by code_simp

lemma isoDate_0820: "isoDate (localClock 8 20) = ''2025-11-03''"
  by code_simp

lemma example_take:
  "handleTakeMedicine ''1762100000000'' ''08:00'' (localClock 8 5) (application exampleSystem)
     = \<lparr> medicines = [twiceDaily],
         medicineLog = [\<lparr> medicineId = ''1762100000000'', medicineName = ''Lisinopril'',
           time = ''08:00'', takenAt = ''08:05'', date = ''2025-11-03'' \<rparr>] \<rparr>"
  unfolding handleTakeMedicine_def take5_toTimeString firstSegment_toISOString hhmm_0805 isoDate_0805
  by (simp add: exampleSystem_def twiceDaily_fields)

lemma record_taken_example:
  "find (\<lambda>med. id_m med = ''1762100000000'') (medicines (application exampleSystem)) = Some twiceDaily
   \<and> medicineLog (handleTakeMedicine ''1762100000000'' ''08:00'' (localClock 8 5) (application exampleSystem))
       = [\<lparr> medicineId = ''1762100000000'', medicineName = ''Lisinopril'', time = ''08:00'',
            takenAt = ''08:05'', date = ''2025-11-03'' \<rparr>]
   \<and> ''1762100000009'' \<notin> id_m ` set (medicines (application exampleSystem))
   \<and> handleTakeMedicine ''1762100000009'' ''08:00'' (localClock 8 5) (application exampleSystem)
       = application exampleSystem"
proof -
  have f: "find (\<lambda>med. id_m med = ''1762100000000'') (medicines (application exampleSystem)) = Some twiceDaily"
    by (simp add: exampleSystem_def twiceDaily_fields)
  have u: "''1762100000009'' \<notin> id_m ` set (medicines (application exampleSystem))"
    by (simp add: exampleSystem_def twiceDaily_fields)
  note t = record_taken[where mid = "''1762100000000''" and app = "application exampleSystem"
      and t = "''08:00''" and now = "localClock 8 5", THEN conjunct1, rule_format, OF f, THEN conjunct1]
  note v = record_taken[where mid = "''1762100000009''" and app = "application exampleSystem"
      and t = "''08:00''" and now = "localClock 8 5", THEN conjunct2, THEN conjunct2, rule_format, OF u]
  have "medicineLog (handleTakeMedicine ''1762100000000'' ''08:00'' (localClock 8 5) (application exampleSystem))
       = [\<lparr> medicineId = ''1762100000000'', medicineName = ''Lisinopril'', time = ''08:00'',
            takenAt = ''08:05'', date = ''2025-11-03'' \<rparr>]"
    unfolding t hhmm_0805 isoDate_0805 by (simp add: exampleSystem_def twiceDaily_fields)
  with f u v show ?thesis by (intro conjI)
qed

lemma hhmm_0200:
  "padDigits 2 (getHours (localClock 2 0)) @ '':'' @ padDigits 2 (getMinutes (localClock 2 0)) = ''02:00''"
  by code_simp

lemma isoDate_0200: "isoDate (localClock 2 0) = ''2025-11-02''"
  by code_simp

lemma isoDate_0600: "isoDate (localClock 6 0) = ''2025-11-03''"
  by code_simp

lemma local_date_0200: "civilFromDays (Day (LocalTime (localClock 2 0))) = (2025, 11, 3)"
  by code_simp

lemma local_date_0600: "civilFromDays (Day (LocalTime (localClock 6 0))) = (2025, 11, 3)"
  by code_simp

lemma night_take:
  "handleTakeMedicine ''1762100000000'' ''08:00'' (localClock 2 0) (application exampleSystem)
     = \<lparr> medicines = [twiceDaily],
         medicineLog = [\<lparr> medicineId = ''1762100000000'', medicineName = ''Lisinopril'',
           time = ''08:00'', takenAt = ''02:00'', date = ''2025-11-02'' \<rparr>] \<rparr>"
  unfolding handleTakeMedicine_def take5_toTimeString firstSegment_toISOString hhmm_0200 isoDate_0200
  by (simp add: exampleSystem_def twiceDaily_fields)

text \<open>
  Claim C8, at the input where the code departs from it. At 02:00 local time on
  3 November 2025, five and a half hours ahead of UTC, the user takes a dose of a known
  medicine. Exactly one entry is appended, with the id, the medicine's name, the scheduled
  time and \<^verbatim>\<open>takenAt\<close> 02:00 in local time, as the claim says; but its date is 2025-11-02,
  the UTC date, while today on the local clock is 3 November. At 06:00 of the same local
  day the entry is not in today's log.
\<close>

theorem logged_date_is_not_today:
  "civilFromDays (Day (LocalTime (localClock 2 0))) = (2025, 11, 3)
   \<and> medicineLog
        (handleTakeMedicine ''1762100000000'' ''08:00'' (localClock 2 0) (application exampleSystem))
       = [\<lparr> medicineId = ''1762100000000'', medicineName = ''Lisinopril'', time = ''08:00'',
            takenAt = ''02:00'', date = ''2025-11-02'' \<rparr>]
   \<and> civilFromDays (Day (LocalTime (localClock 6 0))) = (2025, 11, 3)
   \<and> getTodaysLog
        (handleTakeMedicine ''1762100000000'' ''08:00'' (localClock 2 0) (application exampleSystem))
        (localClock 6 0) = []"
  unfolding night_take local_date_0200 local_date_0600
  by (simp add: getTodaysLog_def firstSegment_toISOString isoDate_0600)

text \<open>
  Claim C10. Deleting removes from the collection the medicines with the given id and no
  other; the log is the same afterwards, and so is today's log.
\<close>

theorem delete_keeps_log:
  "medicines (handleDeleteMedicine i app) = filter (\<lambda>med. id_m med \<noteq> i) (medicines app)
   \<and> set (medicines (handleDeleteMedicine i app)) = {med \<in> set (medicines app). id_m med \<noteq> i}
   \<and> medicineLog (handleDeleteMedicine i app) = medicineLog app
   \<and> getTodaysLog (handleDeleteMedicine i app) now = getTodaysLog app now"
  by (simp add: handleDeleteMedicine_def getTodaysLog_def)

theorem delete_keeps_log_witness:
  "medicines (handleDeleteMedicine ''1762100000000''
      (handleTakeMedicine ''1762100000000'' ''08:00'' (localClock 8 5) (application exampleSystem))) = []
   \<and> getTodaysLog (handleDeleteMedicine ''1762100000000''
      (handleTakeMedicine ''1762100000000'' ''08:00'' (localClock 8 5) (application exampleSystem)))
      (localClock 8 20)
     = [\<lparr> medicineId = ''1762100000000'', medicineName = ''Lisinopril'', time = ''08:00'',
          takenAt = ''08:05'', date = ''2025-11-03'' \<rparr>]"
proof -
  note d = delete_keeps_log[where i = "''1762100000000''" and now = "localClock 8 20" and app =
      "handleTakeMedicine ''1762100000000'' ''08:00'' (localClock 8 5) (application exampleSystem)"]
  have m: "medicines (handleDeleteMedicine ''1762100000000''
      (handleTakeMedicine ''1762100000000'' ''08:00'' (localClock 8 5) (application exampleSystem))) = []"
    unfolding d[THEN conjunct1] by (simp add: example_take twiceDaily_fields)
  have l: "getTodaysLog (handleDeleteMedicine ''1762100000000''
      (handleTakeMedicine ''1762100000000'' ''08:00'' (localClock 8 5) (application exampleSystem)))
      (localClock 8 20)
     = [\<lparr> medicineId = ''1762100000000'', medicineName = ''Lisinopril'', time = ''08:00'',
          takenAt = ''08:05'', date = ''2025-11-03'' \<rparr>]"
    unfolding d[THEN conjunct2, THEN conjunct2, THEN conjunct2]
    by (simp add: example_take getTodaysLog_def firstSegment_toISOString isoDate_0820)
  from m l show ?thesis by (intro conjI)
qed

section \<open>The alert and the card together\<close>

lemma due_window_inside:
  assumes "\<bar>currentMinutes now - mm\<bar> \<le> 5"
  shows "\<bar>TimeWithinDay (LocalTime now) - mm * msPerMinute\<bar> \<le> 15 * msPerMinute"
  using assms currentMinutes_bounds[of now] unfolding msPerMinute_def by linarith

lemma tick_0805: "dueNotifications (alert (tick (localClock 8 5) exampleSystem)) = [morningNotification]"
  by (simp add: system_eval currentMinutes_0805 twiceDaily_fields parse_eval)

text \<open>
  The two windows. Every notification in the due set of a tick belongs to a medicine of the
  collection and to a row of its card, and if its time is not among the taken times of
  that card, the card reports the row as due now at the instant of the tick: five minutes
  of the minute of the day lie inside fifteen minutes of wall-clock time.
\<close>

lemma notified_untaken_is_due_now:
  "n \<in> set (dueNotifications (alert (tick now sys)))
   \<and> time_n n \<notin> set (takenTimesOf sys (id_m (medicine_n n)))
   \<longrightarrow> medicine_n n \<in> set (medicines (application sys))
       \<and> (time_n n, cardRow (tick now sys) (medicine_n n) now (time_n n))
            \<in> set (scheduleRows (medicine_n n) (takenTimesOf sys (id_m (medicine_n n))) now)
       \<and> dueNowBadge (cardRow (tick now sys) (medicine_n n) now (time_n n))"
proof (intro impI)
  assume a: "n \<in> set (dueNotifications (alert (tick now sys)))
   \<and> time_n n \<notin> set (takenTimesOf sys (id_m (medicine_n n)))"
  then have "n \<in> set (newDueNotifications (medicines (application sys)) now
                 (dismissedNotifications (alert sys)))"
    by (simp add: tick_def dueNotifications_check)
  then obtain m t mm where m: "m \<in> set (medicines (application sys))" "frequency m \<noteq> ''as-needed''"
      and t: "t \<in> set (times_m m)" and mm: "medicineMinutes t = Some mm"
      and w: "\<bar>currentMinutes now - mm\<bar> \<le> 5"
      and n: "n = \<lparr> medicine_n = m, time_n = t, id_n = notificationId m t \<rparr>"
    unfolding newDueNotifications_set by blast
  have nm: "medicine_n n = m" "time_n n = t" by (simp_all add: n)
  have row: "cardRow (tick now sys) m now t = scheduleRow (takenTimesOf sys (id_m m)) now t"
    by (simp add: cardRow_def tick_def)
  have "isDueNow now t"
    by (simp add: isDueNow_iff mm due_window_inside[OF w])
  moreover have "t \<notin> set (takenTimesOf sys (id_m m))" using a by (simp add: nm)
  ultimately have "dueNowBadge (cardRow (tick now sys) m now t)"
    by (simp add: row dueNowBadge_def scheduleRow_def)
  moreover have "(t, cardRow (tick now sys) m now t) \<in> set (scheduleRows m (takenTimesOf sys (id_m m)) now)"
    using m t by (auto simp: scheduleRows_def row)
  ultimately show "medicine_n n \<in> set (medicines (application sys))
       \<and> (time_n n, cardRow (tick now sys) (medicine_n n) now (time_n n))
            \<in> set (scheduleRows (medicine_n n) (takenTimesOf sys (id_m (medicine_n n))) now)
       \<and> dueNowBadge (cardRow (tick now sys) (medicine_n n) now (time_n n))"
    using m by (simp add: nm)
qed

lemma notified_untaken_is_due_now_example:
  "morningNotification \<in> set (dueNotifications (alert (tick (localClock 8 5) exampleSystem)))
   \<and> time_n morningNotification \<notin> set (takenTimesOf exampleSystem (id_m (medicine_n morningNotification)))
   \<and> dueNowBadge (cardRow (tick (localClock 8 5) exampleSystem) (medicine_n morningNotification)
        (localClock 8 5) (time_n morningNotification))"
proof -
  have h: "morningNotification \<in> set (dueNotifications (alert (tick (localClock 8 5) exampleSystem)))
   \<and> time_n morningNotification \<notin> set (takenTimesOf exampleSystem (id_m (medicine_n morningNotification)))"
    by (simp add: tick_0805) (simp add: exampleSystem_def)
  note r = notified_untaken_is_due_now[where n = morningNotification and now = "localClock 8 5"
      and sys = exampleSystem, rule_format, OF h]
  from h r show ?thesis by (intro conjI) simp_all
qed

text \<open>
  Claim C9, at the input where the code departs from it: the dose of 08:00 is taken from
  the card at 08:00; the card's take does not dismiss the notification, as the alert's own
  take does, so the tick at 08:02 still has the notification in the due set, while the
  card reports the row neither due now nor overdue.
\<close>

theorem taken_on_card_still_notified:
  "map id_n (dueNotifications (alert
      (tick (localClock 8 2) (cardTake twiceDaily ''08:00'' (localClock 8 0) exampleSystem))))
     = [''1762100000000-08:00'']
   \<and> \<not> dueNowBadge (cardRow
        (tick (localClock 8 2) (cardTake twiceDaily ''08:00'' (localClock 8 0) exampleSystem))
        twiceDaily (localClock 8 2) ''08:00'')
   \<and> \<not> overdueBadge (cardRow
        (tick (localClock 8 2) (cardTake twiceDaily ''08:00'' (localClock 8 0) exampleSystem))
        twiceDaily (localClock 8 2) ''08:00'')"
  apply (intro conjI)
    apply (simp add: system_eval currentMinutes_0802 twiceDaily_fields parse_eval)
   apply (simp add: system_eval scheduleRow_def dueNowBadge_def twiceDaily_fields)
  apply (simp add: system_eval scheduleRow_def overdueBadge_def twiceDaily_fields)
  done

text \<open>A take from the card is final for the card, whatever the clock shows later.\<close>

lemma card_take_is_terminal:
  "isTaken (cardRow (cardTake medicine t now sys) medicine now' t)
   \<and> \<not> dueNowBadge (cardRow (cardTake medicine t now sys) medicine now' t)
   \<and> \<not> overdueBadge (cardRow (cardTake medicine t now sys) medicine now' t)"
  by (simp add: cardRow_def cardTake_def scheduleRow_def dueNowBadge_def overdueBadge_def)

text \<open>
  Claim C7, at the input where the code departs from it: the dose of 08:00 is taken from
  its notification at 08:05, the take is logged, and at 08:20 the card still reports the
  row as not taken and overdue.
\<close>

theorem taken_from_notification_still_overdue:
  "dueNotifications (alert (tick (localClock 8 5) exampleSystem)) = [morningNotification]
   \<and> map time (medicineLog (application
        (notificationTake morningNotification (localClock 8 5) (tick (localClock 8 5) exampleSystem))))
      = [''08:00'']
   \<and> \<not> isTaken (cardRow
        (notificationTake morningNotification (localClock 8 5) (tick (localClock 8 5) exampleSystem))
        twiceDaily (localClock 8 20) ''08:00'')
   \<and> overdueBadge (cardRow
        (notificationTake morningNotification (localClock 8 5) (tick (localClock 8 5) exampleSystem))
        twiceDaily (localClock 8 20) ''08:00'')"
  apply (intro conjI)
     apply (rule tick_0805)
    apply (simp add: system_eval twiceDaily_fields)
   apply (simp add: system_eval scheduleRow_def)
  apply (simp add: system_eval scheduleRow_def overdueBadge_def isOverdue_iff medicineMinutes_0800 clock_eval)
  done

section \<open>The order of a medicine's times\<close>

text \<open>An as-needed medicine has no next dose, no rows, no upcoming doses and no notifications.\<close>

lemma as_needed_excluded:
  assumes "frequency medicine = ''as-needed''"
  shows "getNextDose medicine now = None"
    and "scheduleRows medicine taken now = []"
    and "upcomingPairs [medicine] cur = []"
    and "newDueNotifications [medicine] now dismissed = []"
  using assms
  by (simp_all add: getNextDose_def scheduleRows_def upcomingPairs_def newDueNotifications_def)

text \<open>
  Claim C4, at the input where the code departs from it: the form keeps the times in the
  order they were entered, here 20:00 before 08:00, so the slots are 1200 and 480 in this
  order; \<^verbatim>\<open>getNextDose\<close> then answers 20:00 at 07:00, when the next dose is the one at
  08:00, and 20:00 again at 21:00, when the first dose of tomorrow is the one at 08:00.
\<close>

theorem times_kept_as_entered:
  "handleSubmit
      \<lparr> name_f = ''Lisinopril'', dosage_f = ''10mg'', frequency_f = ''twice-daily'',
        startDate_f = ''2025-11-03'', endDate_f = '''', notes_f = '''' \<rparr>
      [''20:00'', ''08:00''] ''#ef4444'' ''1762100000002'' = Some eveningFirst
   \<and> map medicineMinutes (times_m eveningFirst) = [Some 1200, Some 480]
   \<and> getNextDose eveningFirst (localClock 7 0) = Some ''20:00''
   \<and> getNextDose eveningFirst (localClock 21 0) = Some ''20:00''"
  by (simp add: handleSubmit_def example_eval getNextDose_def parse_eval clock_eval)

end
